theory Spec2Isabelle
  imports Main
begin

section \<open>Values, errors and the interpreter state\<close>

text \<open>
  Arguments and results of native callables are passed by value.  A C++ exception
  thrown by a callable is a value of type \<open>exn\<close> (its type name and its message);
  an outcome is \<open>Inl\<close> of the exception or \<open>Inr\<close> of the returned value.
\<close>

datatype val = VInt int | VPtr nat | VStr string | VVoid

datatype exn = Exn string string

type_synonym outcome = "exn + val"

text \<open>
  \<open>PyThreadState*\<close> is an opaque pointer, modelled as an address; \<open>0\<close> is \<open>NULL\<close>.
\<close>

type_synonym PyThreadState_ptr = nat

datatype event = Released PyThreadState_ptr | Restored PyThreadState_ptr

text \<open>
  The state a call runs in: the interpreter's global lock, the thread state that is
  current, the history of lock operations, the history of calls into native code
  (for each call, whether the lock was held when the callable was entered), and the
  state of the native program (everything the wrapped callable reads and writes).
\<close>

record 'u world =
  gil_held :: bool
  tstate_current :: PyThreadState_ptr
  log :: "event list"
  entered :: "bool list"
  native :: 'u

text \<open>
  Modelled from the spec: the interpreter's thread-state primitives
  \<open>PyEval_SaveThread\<close> and \<open>PyEval_RestoreThread\<close>, which the header only calls.
  Release returns the token (the thread state that was current), clears the current
  thread state and releases the lock; restore consumes a token, takes the lock and
  makes the token the current thread state.  Each records itself in the history.
\<close>

definition PyEval_SaveThread :: "'u world \<Rightarrow> PyThreadState_ptr \<times> 'u world" where
  "PyEval_SaveThread w =
     (tstate_current w,
      w\<lparr>gil_held := False, tstate_current := 0,
        log := log w @ [Released (tstate_current w)]\<rparr>)"

definition PyEval_RestoreThread :: "PyThreadState_ptr \<Rightarrow> 'u world \<Rightarrow> 'u world" where
  "PyEval_RestoreThread tstate w =
     w\<lparr>gil_held := True, tstate_current := tstate,
       log := log w @ [Restored tstate]\<rparr>"

section \<open>The scoped guard \<open>no_gil\<close>\<close>

text \<open>The struct has the single private member \<open>_state\<close>.\<close>

record no_gil =
  no_gil_state :: PyThreadState_ptr

text \<open>\<open>no_gil() { _state = PyEval_SaveThread(); }\<close>\<close>

definition no_gil_ctor :: "'u world \<Rightarrow> no_gil \<times> 'u world" where
  "no_gil_ctor w =
     (case PyEval_SaveThread w of (t, w') \<Rightarrow> (\<lparr>no_gil_state = t\<rparr>, w'))"

text \<open>\<open>~no_gil() { PyEval_RestoreThread(_state); }\<close>\<close>

definition no_gil_dtor :: "no_gil \<Rightarrow> 'u world \<Rightarrow> 'u world" where
  "no_gil_dtor this w = PyEval_RestoreThread (no_gil_state this) w"

text \<open>
  The struct declares no copy constructor, so C++ declares one implicitly: it copies
  \<open>_state\<close> member by member and touches nothing else.
\<close>

definition no_gil_copy_ctor :: "no_gil \<Rightarrow> no_gil" where
  "no_gil_copy_ctor other = \<lparr>no_gil_state = no_gil_state other\<rparr>"

text \<open>
  The template parameter \<open>Guard\<close> of the wrapper: any type with a default
  constructor and a destructor.
\<close>

record ('g, 'u) Guard =
  construct :: "'u world \<Rightarrow> 'g \<times> 'u world"
  destruct :: "'g \<Rightarrow> 'u world \<Rightarrow> 'u world"

definition no_gil_Guard :: "(no_gil, 'u) Guard" where
  "no_gil_Guard = \<lparr>construct = no_gil_ctor, destruct = no_gil_dtor\<rparr>"

section \<open>Callables and their signatures\<close>

datatype ctype = TVoid | TInt | TString | TClass string | TPointer ctype

text \<open>
  The body of a native callable.  It is given the objects its parameters are bound
  to and the native state, and gives an outcome, those objects as it leaves them (a
  parameter of reference type lets it change the object) and the native state.
\<close>

type_synonym 'u body = "val list \<Rightarrow> 'u \<Rightarrow> outcome \<times> val list \<times> 'u"

text \<open>
  The body of a function object, which has a state of its own besides: it is given
  that state first and gives the new one first.
\<close>

type_synonym 'u functor_body = "val \<Rightarrow> val list \<Rightarrow> 'u \<Rightarrow> val \<times> outcome \<times> val list \<times> 'u"

text \<open>
  The callables \<open>Fn\<close> the factory accepts: a pointer to a free function
  \<open>R (*)(A1..An)\<close>, a pointer to a member function \<open>R (C::*)(A1..An)\<close>, whose body
  takes the instance apart from the arguments, and a \<open>boost::function<R (A1..An)>\<close>,
  which holds a function object by value, with the state of that object.
\<close>

datatype 'u Fn =
    FunctionPointer ctype "ctype list" "'u body"
  | MemberFunctionPointer string ctype "ctype list" "val \<Rightarrow> 'u body"
  | BoostFunction ctype "ctype list" val "'u functor_body"

text \<open>
  \<open>mpl_signature<Fn>::type\<close>: the components of the callable, the class of a member
  function turned into a pointer (\<open>add_pointer\<close>):
  \<open>R (*)(A1) => R, A1\<close> and \<open>R (C::*)(A1) => R, C*, A1\<close>.
\<close>

fun mpl_signature :: "'u Fn \<Rightarrow> ctype list" where
  "mpl_signature (FunctionPointer r as f) = r # as"
| "mpl_signature (MemberFunctionPointer c r as f) = r # TPointer (TClass c) # as"
| "mpl_signature (BoostFunction r as st f) = r # as"


text \<open>
  \<open>function_types::function_type\<close> synthesizes a function type from the components:
  \<open>R, C*, A1 => R (C*, A1)\<close>.  A function type is its result type and its parameter
  types; an empty sequence has no result type and gives none.
\<close>

record signature_type =
  result_type :: ctype
  parameter_types :: "ctype list"

fun function_type :: "ctype list \<Rightarrow> signature_type option" where
  "function_type [] = None"
| "function_type (r # as) = Some \<lparr>result_type = r, parameter_types = as\<rparr>"

text \<open>
  \<open>boost::function<Signature>\<close>: a copy of the target together with the signature it
  is called at.  Calling it with another number of arguments than the signature has is
  ill-formed (\<open>None\<close>); a member function is called on its first argument, the
  instance pointer.  A call gives the outcome, the argument objects and the native
  state as the target leaves them, and the target itself as the call leaves it: a
  function object held by value keeps the state the call gave it.
\<close>

record 'u boost_function =
  bf_signature :: signature_type
  bf_target :: "'u Fn"

fun apply_target ::
  "'u Fn \<Rightarrow> val list \<Rightarrow> 'u \<Rightarrow> (outcome \<times> val list \<times> 'u Fn \<times> 'u) option" where
  "apply_target (FunctionPointer r as f) args u =
     (case f args u of (res, args', u') \<Rightarrow> Some (res, args', FunctionPointer r as f, u'))"
| "apply_target (MemberFunctionPointer c r as f) [] u = None"
| "apply_target (MemberFunctionPointer c r as f) (self # args) u =
     (case f self args u of
        (res, args', u') \<Rightarrow> Some (res, self # args', MemberFunctionPointer c r as f, u'))"
| "apply_target (BoostFunction r as st f) args u =
     (case f st args u of
        (st', res, args', u') \<Rightarrow> Some (res, args', BoostFunction r as st' f, u'))"

definition bf_call ::
  "'u boost_function \<Rightarrow> val list \<Rightarrow> 'u
     \<Rightarrow> (outcome \<times> val list \<times> 'u boost_function \<times> 'u) option" where
  "bf_call bf args u =
     (if length args = length (parameter_types (bf_signature bf))
      then (case apply_target (bf_target bf) args u of
              None \<Rightarrow> None
            | Some (res, args', fn', u') \<Rightarrow> Some (res, args', bf\<lparr>bf_target := fn'\<rparr>, u'))
      else None)"

text \<open>
  A call into native code from a state of the world: the history notes whether the
  lock is held as the callable is entered, and the callable runs on the native state.
\<close>

definition enter_native ::
  "'u boost_function \<Rightarrow> val list \<Rightarrow> 'u world
     \<Rightarrow> (outcome \<times> val list \<times> 'u boost_function \<times> 'u world) option" where
  "enter_native bf args w =
     (case bf_call bf args (native w) of
        None \<Rightarrow> None
      | Some (res, args', bf', u') \<Rightarrow>
          Some (res, args', bf', w\<lparr>entered := entered w @ [gil_held w], native := u'\<rparr>))"

section \<open>The guarded wrapper\<close>

text \<open>\<open>guarded_function<Signature, Guard>\<close> has the single member \<open>fn_\<close>, here \<open>fn_member\<close>.\<close>

record 'u guarded_function =
  fn_member :: "'u boost_function"

text \<open>\<open>template <typename Fn> guarded_function(Fn fn) : fn_(fn) {}\<close>\<close>

definition guarded_function_ctor :: "signature_type \<Rightarrow> 'u Fn \<Rightarrow> 'u guarded_function" where
  "guarded_function_ctor sig fn = \<lparr>fn_member = \<lparr>bf_signature = sig, bf_target = fn\<rparr>\<rparr>"

text \<open>
  The body shared by the five call operators: \<open>Guard g; return fn_(a1, .., an);\<close>,
  on the parameter objects \<open>a1, .., an\<close> of the operator.  The guard is constructed,
  the stored callable is entered with the parameter objects, and the guard is
  destroyed when the scope is left, by the return or by the exception.  The operators
  are not \<open>const\<close> and the call goes to the member \<open>fn_\<close> itself, so the wrapper
  with \<open>fn_\<close> as the call leaves it is part of what the body gives, beside the
  parameter objects as the callable leaves them.
\<close>

definition guarded_call ::
  "('g, 'u) Guard \<Rightarrow> 'u guarded_function \<Rightarrow> val list \<Rightarrow> 'u world
     \<Rightarrow> (outcome \<times> val list \<times> 'u guarded_function \<times> 'u world) option" where
  "guarded_call G this params w =
     (case construct G w of
        (g, w1) \<Rightarrow>
          (case enter_native (fn_member this) params w1 of
             None \<Rightarrow> None
           | Some (r, params', bf', w2) \<Rightarrow>
               Some (r, params', this\<lparr>fn_member := bf'\<rparr>, destruct G g w2)))"

text \<open>
  The five call operators.  Every parameter is declared by value
  (\<open>result_type operator()(A1 a1, A2 a2)\<close>): the parameter objects are copies of the
  caller's arguments and end with the call, so the caller's arguments are after the
  call what they were before it, whatever the callable did to the copies.  A call
  gives the outcome, the caller's arguments after the call, the wrapper and the world.
\<close>

definition by_value ::
  "val list \<Rightarrow> (outcome \<times> val list \<times> 'u guarded_function \<times> 'u world) option
     \<Rightarrow> (outcome \<times> val list \<times> 'u guarded_function \<times> 'u world) option" where
  "by_value arguments res =
     map_option (\<lambda>(r, params', this', w'). (r, arguments, this', w')) res"

definition call0 where
  "call0 G this w = by_value [] (guarded_call G this [] w)"

definition call1 where
  "call1 G this a1 w = by_value [a1] (guarded_call G this [a1] w)"

definition call2 where
  "call2 G this a1 a2 w = by_value [a1, a2] (guarded_call G this [a1, a2] w)"

definition call3 where
  "call3 G this a1 a2 a3 w = by_value [a1, a2, a3] (guarded_call G this [a1, a2, a3] w)"

definition call4 where
  "call4 G this a1 a2 a3 a4 w =
     by_value [a1, a2, a3, a4] (guarded_call G this [a1, a2, a3, a4] w)"

text \<open>
  Overload resolution on the wrapper, for a caller that passes temporaries and does
  not look at them again: a call with more than four arguments matches no call
  operator and is ill-formed.
\<close>

definition temporaries ::
  "(outcome \<times> val list \<times> 'u guarded_function \<times> 'u world) option
     \<Rightarrow> (outcome \<times> 'u guarded_function \<times> 'u world) option" where
  "temporaries res = map_option (\<lambda>(r, arguments, this', w'). (r, this', w')) res"

fun invoke ::
  "('g, 'u) Guard \<Rightarrow> 'u guarded_function \<Rightarrow> val list \<Rightarrow> 'u world
     \<Rightarrow> (outcome \<times> 'u guarded_function \<times> 'u world) option" where
  "invoke G this [] w = temporaries (call0 G this w)"
| "invoke G this [a1] w = temporaries (call1 G this a1 w)"
| "invoke G this [a1, a2] w = temporaries (call2 G this a1 a2 w)"
| "invoke G this [a1, a2, a3] w = temporaries (call3 G this a1 a2 a3 w)"
| "invoke G this [a1, a2, a3, a4] w = temporaries (call4 G this a1 a2 a3 a4 w)"
| "invoke G this (a1 # a2 # a3 # a4 # a5 # as) w = None"

section \<open>The factory\<close>

text \<open>
  Call policies of the binding library; the header only passes them on.
\<close>

datatype call_policies =
    default_call_policies
  | return_internal_reference
  | return_value_policy string

text \<open>
  The interpreter-callable object: the wrapper it delegates to (with the guard type the
  wrapper was instantiated at), the policy and the signature description.
\<close>

record ('g, 'u) py_function =
  pf_guard :: "('g, 'u) Guard"
  pf_callable :: "'u guarded_function"
  pf_policy :: call_policies
  pf_signature :: "ctype list"

text \<open>
  Modelled from the spec: the interpreter's generic function-exposition facility
  \<open>boost::python::make_function\<close>, which takes a callable, a policy and a signature
  description and returns an interpreter-native callable object.  It instantiates a
  call of the callable with one argument for each parameter of the signature, so it is
  ill-formed (\<open>None\<close>) when the wrapper has no call operator of that arity.
\<close>

definition make_function ::
  "('g, 'u) Guard \<Rightarrow> 'u guarded_function \<Rightarrow> call_policies \<Rightarrow> ctype list
     \<Rightarrow> ('g, 'u) py_function option" where
  "make_function G f policy sig =
     (if length sig - 1 \<le> 4
      then Some \<lparr>pf_guard = G, pf_callable = f, pf_policy = policy, pf_signature = sig\<rparr>
      else None)"


text \<open>\<open>detail::with_aux<Guard>(fn, policy)\<close>\<close>

definition with_aux ::
  "('g, 'u) Guard \<Rightarrow> 'u Fn \<Rightarrow> call_policies \<Rightarrow> ('g, 'u) py_function option" where
  "with_aux G fn policy =
     (let mpl_signature_type = mpl_signature fn in
      case function_type mpl_signature_type of
        None \<Rightarrow> None
      | Some signature_type \<Rightarrow>
          make_function G (guarded_function_ctor signature_type fn) policy mpl_signature_type)"

text \<open>\<open>with<Guard>(fn, policy)\<close>\<close>

definition with_policy ::
  "('g, 'u) Guard \<Rightarrow> 'u Fn \<Rightarrow> call_policies \<Rightarrow> ('g, 'u) py_function option" where
  "with_policy G fn policy = with_aux G fn policy"

text \<open>\<open>with<Guard>(fn)\<close>\<close>

definition with_default :: "('g, 'u) Guard \<Rightarrow> 'u Fn \<Rightarrow> ('g, 'u) py_function option" where
  "with_default G fn = with_policy G fn default_call_policies"

text \<open>
  Calling a callable directly, without any wrapper, on the caller's own argument
  objects: the outcome, the argument objects and the callable as the call leaves
  them, and the world.
\<close>

definition direct_call_objects ::
  "'u Fn \<Rightarrow> val list \<Rightarrow> 'u world \<Rightarrow> (outcome \<times> val list \<times> 'u Fn \<times> 'u world) option" where
  "direct_call_objects fn args w =
     (if length args = length (mpl_signature fn) - 1
      then (case apply_target fn args (native w) of
              None \<Rightarrow> None
            | Some (r, args', fn', u') \<Rightarrow>
                Some (r, args', fn', w\<lparr>entered := entered w @ [gil_held w], native := u'\<rparr>))
      else None)"

text \<open>The outcome of a direct call and the world it leaves.\<close>

definition direct_call :: "'u Fn \<Rightarrow> val list \<Rightarrow> 'u world \<Rightarrow> (outcome \<times> 'u world) option" where
  "direct_call fn args w =
     map_option (\<lambda>(r, args', fn', w'). (r, w')) (direct_call_objects fn args w)"


text \<open>A sequence of invocations of one wrapper, each on the state the last one left.\<close>

fun invocations ::
  "('g, 'u) Guard \<Rightarrow> 'u guarded_function \<Rightarrow> val list list \<Rightarrow> 'u world
     \<Rightarrow> (outcome list \<times> 'u guarded_function \<times> 'u world) option" where
  "invocations G this [] w = Some ([], this, w)"
| "invocations G this (args # rest) w =
     (case invoke G this args w of
        None \<Rightarrow> None
      | Some (r, this', w') \<Rightarrow>
          (case invocations G this' rest w' of
             None \<Rightarrow> None
           | Some (rs, this'', w'') \<Rightarrow> Some (r # rs, this'', w'')))"

text \<open>Sample callables used at concrete inputs.\<close>

fun add_body :: "unit body" where
  "add_body [VInt a, VInt b] u = (Inr (VInt (a + b)), [VInt a, VInt b], u)"
| "add_body args u = (Inl (Exn ''TypeError'' ''add''), args, u)"

fun sub_body :: "unit body" where
  "sub_body [VInt a, VInt b] u = (Inr (VInt (a - b)), [VInt a, VInt b], u)"
| "sub_body args u = (Inl (Exn ''TypeError'' ''sub''), args, u)"

definition throwing_body :: "unit body" where
  "throwing_body args u = (Inl (Exn ''RuntimeFailure'' ''x''), args, u)"

text \<open>\<open>void bump(int& x) { ++x; }\<close>: it changes the object its parameter is bound to.\<close>

fun bump_body :: "unit body" where
  "bump_body [VInt x] u = (Inr VVoid, [VInt (x + 1)], u)"
| "bump_body args u = (Inl (Exn ''TypeError'' ''bump''), args, u)"

definition bump_fn :: "unit Fn" where
  "bump_fn = FunctionPointer TVoid [TInt] bump_body"

definition bump_sig :: signature_type where
  "bump_sig = \<lparr>result_type = TVoid, parameter_types = [TInt]\<rparr>"

text \<open>
  A function object that counts its calls,
  \<open>struct counter { int n; int operator()() { return ++n; } }\<close>, held in a
  \<open>boost::function<int ()>\<close> with \<open>n = 0\<close>.
\<close>

fun counter_body :: "unit functor_body" where
  "counter_body (VInt n) args u = (VInt (n + 1), Inr (VInt (n + 1)), args, u)"
| "counter_body st args u = (st, Inl (Exn ''TypeError'' ''counter''), args, u)"

definition counter_fn :: "unit Fn" where
  "counter_fn = BoostFunction TInt [] (VInt 0) counter_body"

definition counter_sig :: signature_type where
  "counter_sig = \<lparr>result_type = TInt, parameter_types = []\<rparr>"

definition add_fn :: "unit Fn" where
  "add_fn = FunctionPointer TInt [TInt, TInt] add_body"

definition sub_fn :: "unit Fn" where
  "sub_fn = FunctionPointer TInt [TInt, TInt] sub_body"

definition throwing_fn :: "unit Fn" where
  "throwing_fn = FunctionPointer TVoid [] throwing_body"

definition w0 :: "unit world" where
  "w0 = \<lparr>gil_held = True, tstate_current = 7, log = [], entered = [], native = ()\<rparr>"

definition add_sig :: signature_type where
  "add_sig = \<lparr>result_type = TInt, parameter_types = [TInt, TInt]\<rparr>"







definition throwing_sig :: signature_type where
  "throwing_sig = \<lparr>result_type = TVoid, parameter_types = []\<rparr>"

text \<open>Counting the release and the restore operations in a history.\<close>

fun is_release :: "event \<Rightarrow> bool" where
  "is_release (Released t) = True"
| "is_release (Restored t) = False"

fun is_restore :: "event \<Rightarrow> bool" where
  "is_restore (Released t) = False"
| "is_restore (Restored t) = True"

definition releases :: "event list \<Rightarrow> nat" where
  "releases es = length (filter is_release es)"

definition restores :: "event list \<Rightarrow> nat" where
  "restores es = length (filter is_restore es)"

section \<open>Basic facts about the wrapper\<close>

lemma temporaries_by_value:
  "temporaries (by_value args res) = map_option (\<lambda>(r, params', this', w'). (r, this', w')) res"
  by (cases res) (auto simp: temporaries_def by_value_def)

lemma invoke_guarded_call:
  "length args \<le> 4 \<Longrightarrow>
   invoke G this args w =
     map_option (\<lambda>(r, params', this', w'). (r, this', w')) (guarded_call G this args w)"
  by (induction G this args w rule: invoke.induct)
    (simp_all add: call0_def call1_def call2_def call3_def call4_def temporaries_by_value)

lemma invoke_too_many: "4 < length args \<Longrightarrow> invoke G this args w = None"
  by (induction G this args w rule: invoke.induct) simp_all

lemma function_type_mpl_signature:
  "function_type (mpl_signature fn) =
     Some \<lparr>result_type = hd (mpl_signature fn), parameter_types = tl (mpl_signature fn)\<rparr>"
  by (cases fn) simp_all

lemma bf_call_ctor:
  "function_type (mpl_signature fn) = Some sig \<Longrightarrow>
   bf_call (fn_member (guarded_function_ctor sig fn)) args u =
     (if length args = length (mpl_signature fn) - 1
      then map_option (\<lambda>(res, args', fn', u'). (res, args', \<lparr>bf_signature = sig, bf_target = fn'\<rparr>, u'))
             (apply_target fn args u)
      else None)"
  by (cases fn) (auto simp: bf_call_def guarded_function_ctor_def split: option.splits)

lemma guarded_call_no_gil:
  "guarded_call no_gil_Guard this args w =
     (case bf_call (fn_member this) args (native w) of
        None \<Rightarrow> None
      | Some (r, params', bf', u2) \<Rightarrow>
          Some (r, params', this\<lparr>fn_member := bf'\<rparr>,
            w\<lparr>gil_held := True, entered := entered w @ [False], native := u2,
              log := log w @ [Released (tstate_current w), Restored (tstate_current w)]\<rparr>))"
  by (simp add: guarded_call_def enter_native_def no_gil_Guard_def no_gil_ctor_def
      no_gil_dtor_def PyEval_SaveThread_def PyEval_RestoreThread_def split: option.splits)



section \<open>The wrapper returns what the callable returns\<close>



section \<open>The lock around the inner call\<close>

lemma throwing_sig_function_type:
  "function_type (mpl_signature throwing_fn) = Some throwing_sig"
  by (simp add: throwing_fn_def throwing_sig_def)

lemma direct_call_throwing:
  "direct_call throwing_fn [] w0 =
     Some (Inl (Exn ''RuntimeFailure'' ''x''), w0\<lparr>entered := [True]\<rparr>)"
  by (simp add: direct_call_def direct_call_objects_def throwing_fn_def throwing_body_def w0_def)

lemma invoke_throwing:
  "invoke no_gil_Guard (guarded_function_ctor throwing_sig throwing_fn) [] w0 =
     Some (Inl (Exn ''RuntimeFailure'' ''x''), guarded_function_ctor throwing_sig throwing_fn,
       w0\<lparr>log := [Released 7, Restored 7], entered := [False]\<rparr>)"
  by (simp add: call0_def temporaries_by_value guarded_call_no_gil bf_call_def
      guarded_function_ctor_def throwing_sig_def throwing_fn_def throwing_body_def w0_def)

text \<open>
  Claim C2.  In every invocation of the wrapper guarded by \<open>no_gil\<close>, whatever the
  outcome \<open>r\<close> (a value or an exception): the release runs first, on the state the
  wrapper was called in, and yields the token \<open>t\<close> and a state \<open>w1\<close> in which the
  lock is not held; the stored callable is entered from \<open>w1\<close>, so the history of
  calls notes that the lock was not held as it was entered; the lock is still not held
  in the state \<open>w2\<close> the callable leaves; and the state the wrapper returns in is
  the restore of \<open>t\<close> applied to \<open>w2\<close>, in which the lock is held.
\<close>

theorem release_before_call_restore_after:
  assumes "length args \<le> 4"
    and "invoke no_gil_Guard this args w = Some (r, this', w')"
  shows "\<exists>t w1 params' bf' w2.
           PyEval_SaveThread w = (t, w1)
         \<and> \<not> gil_held w1
         \<and> enter_native (fn_member this) args w1 = Some (r, params', bf', w2)
         \<and> entered w2 = entered w @ [False]
         \<and> \<not> gil_held w2
         \<and> w' = PyEval_RestoreThread t w2
         \<and> gil_held w'
         \<and> entered w' = entered w @ [False]"
  using assms
  by (auto simp: invoke_guarded_call guarded_call_def enter_native_def no_gil_Guard_def
      no_gil_ctor_def no_gil_dtor_def PyEval_SaveThread_def PyEval_RestoreThread_def
      split: option.splits)

theorem release_before_call_restore_after_witness:
  "length ([]::val list) \<le> 4
   \<and> invoke no_gil_Guard (guarded_function_ctor throwing_sig throwing_fn) [] w0 =
       Some (Inl (Exn ''RuntimeFailure'' ''x''), guarded_function_ctor throwing_sig throwing_fn,
         w0\<lparr>log := [Released 7, Restored 7], entered := [False]\<rparr>)
   \<and> (\<exists>t w1 params' bf' w2.
           PyEval_SaveThread w0 = (t, w1)
         \<and> \<not> gil_held w1
         \<and> enter_native (fn_member (guarded_function_ctor throwing_sig throwing_fn)) [] w1
             = Some (Inl (Exn ''RuntimeFailure'' ''x''), params', bf', w2)
         \<and> entered w2 = entered w0 @ [False]
         \<and> \<not> gil_held w2
         \<and> w0\<lparr>log := [Released 7, Restored 7], entered := [False]\<rparr> = PyEval_RestoreThread t w2
         \<and> gil_held (w0\<lparr>log := [Released 7, Restored 7], entered := [False]\<rparr>))"
proof -
  have a: "length ([]::val list) \<le> 4" by simp
  show ?thesis
    using a invoke_throwing release_before_call_restore_after [OF a invoke_throwing]
    by simp blast
qed

section \<open>Exceptions of the callable\<close>

text \<open>
  Claim C3.  When the callable, called directly, throws the exception \<open>e\<close>, the
  wrapper guarded by \<open>no_gil\<close> ends with the same exception \<open>e\<close>, and the restore
  runs on the path of that exception: the callable is entered, and throws, in the
  state \<open>w1\<close> the release left, with the lock not held, and the wrapper ends in the
  restore of the token applied to the state \<open>w2\<close> the throwing callable left.  So
  the lock is held, the thread state that was current before the call is current
  again, and the history has grown by one release and one restore of that token, with
  the callable entered between them.
\<close>

theorem exception_propagates_lock_restored:
  assumes "length args \<le> 4"
    and "function_type (mpl_signature fn) = Some sig"
    and "direct_call fn args w = Some (Inl e, wd)"
  shows "\<exists>this' w' t w1 params' bf' w2.
           invoke no_gil_Guard (guarded_function_ctor sig fn) args w = Some (Inl e, this', w')
         \<and> PyEval_SaveThread w = (t, w1)
         \<and> enter_native (fn_member (guarded_function_ctor sig fn)) args w1
             = Some (Inl e, params', bf', w2)
         \<and> entered w2 = entered w @ [False]
         \<and> w' = PyEval_RestoreThread t w2
         \<and> gil_held w'
         \<and> tstate_current w' = tstate_current w
         \<and> native w' = native wd
         \<and> log w' = log w @ [Released (tstate_current w), Restored (tstate_current w)]"
  using assms
  by (auto simp: invoke_guarded_call guarded_call_def enter_native_def no_gil_Guard_def
      no_gil_ctor_def no_gil_dtor_def PyEval_SaveThread_def PyEval_RestoreThread_def
      bf_call_ctor direct_call_def direct_call_objects_def split: if_splits option.splits)

theorem exception_propagates_lock_restored_witness:
  "length ([]::val list) \<le> 4
   \<and> function_type (mpl_signature throwing_fn) = Some throwing_sig
   \<and> direct_call throwing_fn [] w0
       = Some (Inl (Exn ''RuntimeFailure'' ''x''), w0\<lparr>entered := [True]\<rparr>)
   \<and> (\<exists>this' w'.
         invoke no_gil_Guard (guarded_function_ctor throwing_sig throwing_fn) [] w0
           = Some (Inl (Exn ''RuntimeFailure'' ''x''), this', w')
       \<and> gil_held w'
       \<and> entered w' = entered w0 @ [False]
       \<and> tstate_current w' = tstate_current w0
       \<and> native w' = native w0
       \<and> log w' = log w0 @ [Released (tstate_current w0), Restored (tstate_current w0)])"
proof -
  have a: "length ([]::val list) \<le> 4" by simp
  show ?thesis
    using a throwing_sig_function_type direct_call_throwing
      exception_propagates_lock_restored [OF a throwing_sig_function_type direct_call_throwing]
    by (auto simp: PyEval_RestoreThread_def)
qed

lemma guarded_call_sequence:
  assumes "guarded_call G this args w = Some (r, params', this', w')"
  shows "\<exists>g w1 bf' w2.
           construct G w = (g, w1)
         \<and> enter_native (fn_member this) args w1 = Some (r, params', bf', w2)
         \<and> this' = this\<lparr>fn_member := bf'\<rparr>
         \<and> w' = destruct G g w2"
  using assms by (auto simp: guarded_call_def split: prod.splits option.splits)

section \<open>Pairing of release and restore\<close>

lemma invoke_no_gil_log:
  assumes "invoke no_gil_Guard this args w = Some (r, this', w')"
  shows "tstate_current w' = tstate_current w
       \<and> log w' = log w @ [Released (tstate_current w), Restored (tstate_current w)]"
proof (cases "length args \<le> 4")
  case True
  with assms show ?thesis
    by (auto simp: invoke_guarded_call guarded_call_no_gil split: option.splits)
next
  case False
  then have "invoke no_gil_Guard this args w = None"
    by (simp add: invoke_too_many)
  with assms show ?thesis by simp
qed

lemma invocations_no_gil_log:
  assumes "invocations no_gil_Guard this argss w = Some (rs, this', w')"
  shows "log w' = log w @ concat (replicate (length argss)
                     [Released (tstate_current w), Restored (tstate_current w)])"
  using assms
proof (induction argss arbitrary: this w rs this' w')
  case Nil
  then show ?case by simp
next
  case (Cons args rest)
  from Cons.prems obtain r t w1 rs1 where
    i0: "invoke no_gil_Guard this args w = Some (r, t, w1)"
    and s0: "invocations no_gil_Guard t rest w1 = Some (rs1, this', w')"
    by (auto split: option.splits)
  from invoke_no_gil_log [OF i0] have
    c: "tstate_current w1 = tstate_current w"
    and l: "log w1 = log w @ [Released (tstate_current w), Restored (tstate_current w)]"
    by simp_all
  from Cons.IH [OF s0] have
    "log w' = log w1 @ concat (replicate (length rest)
                     [Released (tstate_current w1), Restored (tstate_current w1)])" .
  with l c show ?case by simp
qed

lemma releases_pairs:
  "releases (es @ concat (replicate n [Released t, Restored t])) = releases es + n"
  by (induction n) (simp_all add: releases_def)

lemma restores_pairs:
  "restores (es @ concat (replicate n [Released t, Restored t])) = restores es + n"
  by (induction n) (simp_all add: restores_def)

lemma invoke_add_2_3:
  "invoke no_gil_Guard (guarded_function_ctor add_sig add_fn) [VInt 2, VInt 3] w0 =
     Some (Inr (VInt 5), guarded_function_ctor add_sig add_fn,
       w0\<lparr>log := [Released 7, Restored 7], entered := [False]\<rparr>)"
  by (simp add: call2_def temporaries_by_value guarded_call_no_gil bf_call_def
      guarded_function_ctor_def add_sig_def add_fn_def w0_def)

lemma invoke_add_1_1:
  "invoke no_gil_Guard (guarded_function_ctor add_sig add_fn) [VInt 1, VInt 1]
       (w0\<lparr>log := [Released 7, Restored 7], entered := [False]\<rparr>) =
     Some (Inr (VInt 2), guarded_function_ctor add_sig add_fn,
       w0\<lparr>log := [Released 7, Restored 7, Released 7, Restored 7],
          entered := [False, False]\<rparr>)"
  by (simp add: call2_def temporaries_by_value guarded_call_no_gil bf_call_def
      guarded_function_ctor_def add_sig_def add_fn_def w0_def)

lemma invocations_add_twice:
  "invocations no_gil_Guard (guarded_function_ctor add_sig add_fn)
       [[VInt 2, VInt 3], [VInt 1, VInt 1]] w0 =
     Some ([Inr (VInt 5), Inr (VInt 2)], guarded_function_ctor add_sig add_fn,
       w0\<lparr>log := [Released 7, Restored 7, Released 7, Restored 7],
          entered := [False, False]\<rparr>)"
  by (simp add: invoke_add_2_3 invoke_add_1_1 del: invoke.simps)

text \<open>
  Claim C4.  After \<open>N\<close> invocations of the wrapper guarded by \<open>no_gil\<close>, the history
  holds exactly \<open>N\<close> more releases and exactly \<open>N\<close> more restores than before; it
  has grown by \<open>N\<close> pairs, each a release followed by the restore of the token that
  release returned.
\<close>

theorem releases_and_restores_paired:
  assumes "invocations no_gil_Guard this argss w = Some (rs, this', w')"
  shows "releases (log w') = releases (log w) + length argss
       \<and> restores (log w') = restores (log w) + length argss
       \<and> log w' = log w @ concat (replicate (length argss)
                     [Released (tstate_current w), Restored (tstate_current w)])"
  using invocations_no_gil_log [OF assms] by (simp add: releases_pairs restores_pairs)

theorem releases_and_restores_paired_witness:
  "invocations no_gil_Guard (guarded_function_ctor add_sig add_fn)
       [[VInt 2, VInt 3], [VInt 1, VInt 1]] w0 =
     Some ([Inr (VInt 5), Inr (VInt 2)], guarded_function_ctor add_sig add_fn,
       w0\<lparr>log := [Released 7, Restored 7, Released 7, Restored 7],
          entered := [False, False]\<rparr>)
   \<and> releases (log (w0\<lparr>log := [Released 7, Restored 7, Released 7, Restored 7],
                         entered := [False, False]\<rparr>))
       = releases (log w0) + 2
   \<and> restores (log (w0\<lparr>log := [Released 7, Restored 7, Released 7, Restored 7],
                         entered := [False, False]\<rparr>))
       = restores (log w0) + 2"
  using invocations_add_twice releases_and_restores_paired [OF invocations_add_twice]
  by simp

section \<open>The token\<close>



section \<open>Copies of a guard\<close>

text \<open>
  A guard made by the implicit copy constructor holds the token of the guard it was
  copied from, and the destructors of both restore that token: one release, two
  restores.
\<close>

theorem no_gil_copy_restores_twice:
  "no_gil_ctor w0 =
     (\<lparr>no_gil_state = 7\<rparr>, w0\<lparr>gil_held := False, tstate_current := 0, log := [Released 7]\<rparr>)
   \<and> no_gil_state (no_gil_copy_ctor \<lparr>no_gil_state = 7\<rparr>) = 7
   \<and> log (no_gil_dtor \<lparr>no_gil_state = 7\<rparr>
           (no_gil_dtor (no_gil_copy_ctor \<lparr>no_gil_state = 7\<rparr>) (snd (no_gil_ctor w0))))
       = [Released 7, Restored 7, Restored 7]"
  by (simp add: no_gil_ctor_def no_gil_dtor_def no_gil_copy_ctor_def PyEval_SaveThread_def
      PyEval_RestoreThread_def w0_def)

text \<open>
  Claim C6, amended.  The guard type can be copied, and the copy holds the same
  token.  The wrapper never copies its guard: every invocation adds to the history
  exactly one release and exactly one restore, the restore after the release and of
  the token the release returned.
\<close>

theorem one_guard_per_invocation:
  assumes "invoke no_gil_Guard this args w = Some (r, this', w')"
  shows "no_gil_state (no_gil_copy_ctor g) = no_gil_state g
       \<and> releases (log w') = releases (log w) + 1
       \<and> restores (log w') = restores (log w) + 1
       \<and> log w' = log w @ [Released (fst (PyEval_SaveThread w)),
                             Restored (fst (PyEval_SaveThread w))]"
  using invoke_no_gil_log [OF assms]
  by (simp add: releases_def restores_def no_gil_copy_ctor_def PyEval_SaveThread_def)

theorem one_guard_per_invocation_witness:
  "invoke no_gil_Guard (guarded_function_ctor add_sig add_fn) [VInt 2, VInt 3] w0 =
     Some (Inr (VInt 5), guarded_function_ctor add_sig add_fn,
       w0\<lparr>log := [Released 7, Restored 7], entered := [False]\<rparr>)
   \<and> no_gil_state (no_gil_copy_ctor \<lparr>no_gil_state = 7\<rparr>) = 7
   \<and> releases (log (w0\<lparr>log := [Released 7, Restored 7], entered := [False]\<rparr>))
       = releases (log w0) + 1
   \<and> restores (log (w0\<lparr>log := [Released 7, Restored 7], entered := [False]\<rparr>))
       = restores (log w0) + 1"
  using invoke_add_2_3 one_guard_per_invocation [OF invoke_add_2_3, of "\<lparr>no_gil_state = 7\<rparr>"]
  by simp

section \<open>The default call policy\<close>

text \<open>
  Claim C8.  The factory taking only the callable gives what the factory taking the
  callable and a policy gives at the default call policy.
\<close>

theorem with_default_is_with_default_policy:
  "with_default G fn = with_policy G fn default_call_policies"
  by (simp add: with_default_def)

section \<open>The state of the wrapper\<close>





lemma counter_sig_function_type: "function_type (mpl_signature counter_fn) = Some counter_sig"
  by (simp add: counter_fn_def counter_sig_def)





section \<open>Member functions\<close>





section \<open>Arguments\<close>

text \<open>
  Claim C10.  Each call operator takes its arguments by value and hands the copies,
  in the same order, to the stored callable.  For every arity, the outcome of the
  wrapper called at \<open>a1, .., an\<close> is the outcome of the stored callable at the list
  \<open>[a1, .., an]\<close>, and the caller's arguments after the call are \<open>a1, .., an\<close>,
  whatever the callable did to the objects it was given.  At the callable
  \<open>void bump(int& x)\<close>: called directly on the caller's 5 it leaves the caller
  with 6; called through the wrapper it leaves the caller with 5.  At a callable that
  is not symmetric in its arguments, the difference, the wrapper called at 5 and 3
  gives 2.
\<close>

theorem arguments_by_value_in_order:
  "map_option (\<lambda>(r, arguments, this', w'). (r, arguments)) (call0 no_gil_Guard this w)
     = map_option (\<lambda>(r, params', bf', u'). (r, []))
         (bf_call (fn_member this) [] (native w))
   \<and> map_option (\<lambda>(r, arguments, this', w'). (r, arguments)) (call1 no_gil_Guard this a1 w)
     = map_option (\<lambda>(r, params', bf', u'). (r, [a1]))
         (bf_call (fn_member this) [a1] (native w))
   \<and> map_option (\<lambda>(r, arguments, this', w'). (r, arguments)) (call2 no_gil_Guard this a1 a2 w)
     = map_option (\<lambda>(r, params', bf', u'). (r, [a1, a2]))
         (bf_call (fn_member this) [a1, a2] (native w))
   \<and> map_option (\<lambda>(r, arguments, this', w'). (r, arguments))
         (call3 no_gil_Guard this a1 a2 a3 w)
     = map_option (\<lambda>(r, params', bf', u'). (r, [a1, a2, a3]))
         (bf_call (fn_member this) [a1, a2, a3] (native w))
   \<and> map_option (\<lambda>(r, arguments, this', w'). (r, arguments))
         (call4 no_gil_Guard this a1 a2 a3 a4 w)
     = map_option (\<lambda>(r, params', bf', u'). (r, [a1, a2, a3, a4]))
         (bf_call (fn_member this) [a1, a2, a3, a4] (native w))
   \<and> map_option (\<lambda>(r, args', fn', w'). (r, args')) (direct_call_objects bump_fn [VInt 5] w0)
     = Some (Inr VVoid, [VInt 6])
   \<and> map_option (\<lambda>(r, arguments, this', w'). (r, arguments))
         (call1 no_gil_Guard (guarded_function_ctor bump_sig bump_fn) (VInt 5) w0)
     = Some (Inr VVoid, [VInt 5])
   \<and> map_option (\<lambda>(r, arguments, this', w'). r)
         (call2 no_gil_Guard (guarded_function_ctor add_sig sub_fn) (VInt 5) (VInt 3) w0)
     = Some (Inr (VInt 2))"
  by (auto simp: call0_def call1_def call2_def call3_def call4_def by_value_def
      guarded_call_no_gil bf_call_def guarded_function_ctor_def add_sig_def sub_fn_def
      bump_sig_def bump_fn_def direct_call_objects_def w0_def
      split: option.splits)

end
